theory Spec2Isabelle
  imports Complex_Main
begin

section \<open>JavaScript values\<close>

text \<open>
  The benchmark utilities are JavaScript.  A JavaScript number is modelled as an exact
  real number or one of the three values that are not finite; the rounding of IEEE
  doubles and the sign of zero are not modelled.  The durations the harness records are
  whole numbers of nanoseconds, on which sums and differences are exact in both readings
  as long as they stay below \<open>2^53\<close>; quotients and square roots are exact here and
  rounded there.

  A field of a resource snapshot holds a number, the sentinel string \<open>'unknown'\<close>
  (constructor \<open>StrUnknown\<close>) or nothing at all (\<open>Undefined\<close>).
\<close>

datatype jsnum = Fin real | PosInf | NegInf | NaN

datatype jsval = Number jsnum | StrUnknown | Undefined

text \<open>The binary \<open>+\<close> on two numbers.\<close>

fun js_add :: "jsnum \<Rightarrow> jsnum \<Rightarrow> jsnum" where
  "js_add NaN _ = NaN"
| "js_add _ NaN = NaN"
| "js_add (Fin a) (Fin b) = Fin (a + b)"
| "js_add PosInf NegInf = NaN"
| "js_add NegInf PosInf = NaN"
| "js_add PosInf _ = PosInf"
| "js_add _ PosInf = PosInf"
| "js_add NegInf _ = NegInf"
| "js_add _ NegInf = NegInf"

fun js_neg :: "jsnum \<Rightarrow> jsnum" where
  "js_neg (Fin a) = Fin (- a)"
| "js_neg PosInf = NegInf"
| "js_neg NegInf = PosInf"
| "js_neg NaN = NaN"

text \<open>The binary \<open>-\<close> on two numbers: \<open>a - b\<close> is \<open>a + (-b)\<close>.\<close>

definition js_sub :: "jsnum \<Rightarrow> jsnum \<Rightarrow> jsnum" where
  "js_sub a b = js_add a (js_neg b)"

text \<open>
  \<open>x / a.length\<close>: division by the length of an array, a non-negative integer.
  \<open>0 / 0\<close> is \<open>NaN\<close>, and a non-zero number over zero is an infinity.
\<close>

fun js_div_length :: "jsnum \<Rightarrow> nat \<Rightarrow> jsnum" where
  "js_div_length NaN n = NaN"
| "js_div_length PosInf n = PosInf"
| "js_div_length NegInf n = NegInf"
| "js_div_length (Fin x) n =
     (if n = 0 then (if x = 0 then NaN else if 0 < x then PosInf else NegInf)
      else Fin (x / real n))"

text \<open>\<open>Math.pow(x, 2)\<close>.\<close>

fun js_pow2 :: "jsnum \<Rightarrow> jsnum" where
  "js_pow2 (Fin x) = Fin (x ^ 2)"
| "js_pow2 PosInf = PosInf"
| "js_pow2 NegInf = PosInf"
| "js_pow2 NaN = NaN"

text \<open>\<open>Math.sqrt(x)\<close>: \<open>NaN\<close> below zero.\<close>

fun js_sqrt :: "jsnum \<Rightarrow> jsnum" where
  "js_sqrt (Fin x) = (if x < 0 then NaN else Fin (sqrt x))"
| "js_sqrt PosInf = PosInf"
| "js_sqrt NegInf = NaN"
| "js_sqrt NaN = NaN"

text \<open>
  \<open>ToNumber\<close>, applied by \<open>-\<close> to each operand: \<open>undefined\<close> becomes \<open>NaN\<close>, and so
  does the string \<open>'unknown'\<close>, which is not a numeric literal.
\<close>

fun to_number :: "jsval \<Rightarrow> jsnum" where
  "to_number (Number n) = n"
| "to_number StrUnknown = NaN"
| "to_number Undefined = NaN"

text \<open>\<open>a - b\<close> on two values of any kind: always a number.\<close>

definition js_minus :: "jsval \<Rightarrow> jsval \<Rightarrow> jsval" where
  "js_minus a b = Number (js_sub (to_number a) (to_number b))"

text \<open>
  Truthiness, as \<open>||\<close> tests it: zero, \<open>NaN\<close> and \<open>undefined\<close> are falsy; a non-empty
  string is truthy.
\<close>

fun truthy :: "jsval \<Rightarrow> bool" where
  "truthy (Number (Fin x)) = (x \<noteq> 0)"
| "truthy (Number NaN) = False"
| "truthy (Number PosInf) = True"
| "truthy (Number NegInf) = True"
| "truthy StrUnknown = True"
| "truthy Undefined = False"

text \<open>\<open>v || 'unknown'\<close>.\<close>

definition or_unknown :: "jsval \<Rightarrow> jsval" where
  "or_unknown v = (if truthy v then v else StrUnknown)"

text \<open>
  \<open>s || 'unknown'\<close> for a field that holds a string when it is there (\<open>totalMemory\<close>):
  the empty string and \<open>undefined\<close> are falsy.
\<close>

definition str_or_unknown :: "string option \<Rightarrow> string" where
  "str_or_unknown v = (case v of None \<Rightarrow> ''unknown'' | Some s \<Rightarrow> (if s = [] then ''unknown'' else s))"

section \<open>Arrays on the heap\<close>

text \<open>
  Arrays are objects: \<open>executionTimes\<close> is a reference, the report stores that same
  reference, and \<open>sort\<close> works in place.  The heap maps addresses to the contents of the
  arrays of numbers; \<open>next_addr\<close> is the first address not yet handed out.
\<close>

record heap =
  cells :: "nat \<Rightarrow> real list"
  next_addr :: nat

text \<open>\<open>[...a]\<close>: a fresh array with the elements of \<open>a\<close>.\<close>

definition array_copy :: "heap \<Rightarrow> nat \<Rightarrow> nat \<times> heap" where
  "array_copy h a =
     (next_addr h,
      h\<lparr>cells := (cells h)(next_addr h := cells h a), next_addr := Suc (next_addr h)\<rparr>)"

text \<open>
  \<open>a.sort((x, y) => x - y)\<close>: sorts the array at \<open>a\<close> in place, ascending by numeric
  value, and returns the same reference.
\<close>

definition array_sort :: "heap \<Rightarrow> nat \<Rightarrow> heap" where
  "array_sort h a = h\<lparr>cells := (cells h)(a := sort (cells h a))\<rparr>"

text \<open>\<open>a[i]\<close>: \<open>undefined\<close> past the end.\<close>

definition js_nth :: "real list \<Rightarrow> nat \<Rightarrow> jsval" where
  "js_nth xs i = (if i < length xs then Number (Fin (xs ! i)) else Undefined)"

definition array_index :: "heap \<Rightarrow> nat \<Rightarrow> nat \<Rightarrow> jsval" where
  "array_index h a i = js_nth (cells h a) i"

text \<open>\<open>Math.floor(x)\<close> of a non-negative number, used as an array index.\<close>

definition floor_index :: "real \<Rightarrow> nat" where
  "floor_index x = nat \<lfloor>x\<rfloor>"

section \<open>The report\<close>

record 'a memory_fields =
  rss :: 'a
  heapTotal :: 'a
  heapUsed :: 'a
  external :: 'a

record memory_snapshot = "jsval memory_fields" +
  totalMemory :: "string option"

record cpu_snapshot =
  cpuCores :: jsval
  user :: jsval
  system :: jsval

record 'a before_after =
  before :: 'a
  after :: 'a

record cpuUsage_arg = "cpu_snapshot before_after" +
  cpuCores :: jsval

record process =
  platform :: string
  version :: string
  env_CONTAINER :: "string option"

record environment =
  os :: string
  container :: bool
  cpuCores :: jsval
  memory :: string

record memoryUsage_report = "memory_snapshot before_after" +
  diff :: "jsval memory_fields"

record cpuUsage_report = "cpu_snapshot before_after" +
  diffUser :: jsval
  diffSystem :: jsval

record metrics =
  executionTimes :: nat
  averageExecutionTime :: jsval
  memoryUsage :: memoryUsage_report
  cpuUsage :: cpuUsage_report

record statistics =
  mean :: jsval
  median :: jsval
  stdDev :: jsval
  p95 :: jsval
  p99 :: jsval

record report =
  runtime :: string
  version :: string
  "experiment" :: string
  timestamp :: string
  environment :: environment
  metrics :: metrics
  statistics :: statistics

section \<open>formatMetrics\<close>

text \<open>
  \<open>formatMetrics\<close> of \<open>metrics-interface.js\<close>.  Besides its six arguments it reads the
  ambient \<open>process\<close> object and the clock (\<open>new Date().toISOString()\<close>, here \<open>now\<close>),
  and it works on the heap \<open>h\<close>, which it returns with the sorted copy added.
\<close>

definition formatMetrics ::
  "process \<Rightarrow> string \<Rightarrow> heap \<Rightarrow> string \<Rightarrow> string \<Rightarrow> string \<Rightarrow> nat \<Rightarrow>
   memory_snapshot before_after \<Rightarrow> cpuUsage_arg \<Rightarrow> report \<times> heap" where
  "formatMetrics proc now h rt ver expt execTimes memUsage cpuUsg =
     (let mean_v = js_div_length (foldl (\<lambda>a b. js_add a (Fin b)) (Fin 0) (cells h execTimes))
                     (length (cells h execTimes));
          (sorted, h1) = array_copy h execTimes;
          h2 = array_sort h1 sorted;
          median_v = array_index h2 sorted (floor_index (real (length (cells h2 sorted)) / 2));
          stdDev_v = js_sqrt (js_div_length
                       (foldl (\<lambda>sum val. js_add sum (js_pow2 (js_sub (Fin val) mean_v))) (Fin 0)
                          (cells h2 execTimes))
                       (length (cells h2 execTimes)));
          p95_v = array_index h2 sorted (floor_index (real (length (cells h2 sorted)) * (95 / 100)));
          p99_v = array_index h2 sorted (floor_index (real (length (cells h2 sorted)) * (99 / 100)))
      in (\<lparr>runtime = rt,
           version = ver,
           experiment = expt,
           timestamp = now,
           environment = \<lparr>
             os = platform proc,
             container = (env_CONTAINER proc = Some ''true''),
             cpuCores = or_unknown (cpuUsage_arg.cpuCores cpuUsg),
             memory = str_or_unknown (totalMemory (before memUsage))\<rparr>,
           metrics = \<lparr>
             executionTimes = execTimes,
             averageExecutionTime = Number mean_v,
             memoryUsage = \<lparr>
               before = before memUsage,
               after = after memUsage,
               diff = \<lparr>
                 rss = js_minus (rss (after memUsage)) (rss (before memUsage)),
                 heapTotal = js_minus (heapTotal (after memUsage)) (heapTotal (before memUsage)),
                 heapUsed = js_minus (heapUsed (after memUsage)) (heapUsed (before memUsage)),
                 external = js_minus (external (after memUsage)) (external (before memUsage))\<rparr>\<rparr>,
             cpuUsage = \<lparr>
               before = before cpuUsg,
               after = after cpuUsg,
               diffUser = js_minus (user (after cpuUsg)) (user (before cpuUsg)),
               diffSystem = js_minus (system (after cpuUsg)) (system (before cpuUsg))\<rparr>\<rparr>,
           statistics = \<lparr>
             mean = Number mean_v,
             median = median_v,
             stdDev = Number stdDev_v,
             p95 = p95_v,
             p99 = p99_v\<rparr>\<rparr>,
          h2))"


text \<open>
  \<open>formatMetrics\<close> of \<open>metrics-interface.mjs\<close>, which the \<open>benchmark\<close> functions import.
  Its text is that of \<open>formatMetrics\<close> above except for \<open>os\<close> and \<open>container\<close>, which it
  takes from whichever of the globals \<open>process\<close>, \<open>Deno\<close>, \<open>Bun\<close> exists.  Its third branch
  reads \<open>process.platform\<close> where \<open>process\<close> is known not to exist, a \<open>ReferenceError\<close>;
  the statistics are computed before that, so the heap has the sorted copy all the same.
\<close>

datatype js_exception = ReferenceError | TypeError | AlreadyExists | SystemError string





section \<open>Console and file system\<close>









section \<open>saveResults\<close>





section \<open>benchmark\<close>




record iteration_metrics =
  iteration :: nat
  executionTime :: real
  memory :: memoryUsage_report










section \<open>Notions of the specification\<close>

text \<open>
  The index the specification gives for a percentile: the computed index, replaced by
  the last valid index when it equals the length \<open>n\<close>.
\<close>

definition clamp_index :: "nat \<Rightarrow> nat \<Rightarrow> nat" where
  "clamp_index n i = (if i = n then n - 1 else i)"



section \<open>Example inputs\<close>

definition example_heap :: heap where
  "example_heap =
     \<lparr>cells = (\<lambda>_. [])(0 := [300, 100, 500, 200, 400], 1 := [10], 3 := [7, 7, 7], 4 := [200, 100]),
      next_addr = 5\<rparr>"

definition example_process :: process where
  "example_process = \<lparr>platform = ''linux'', version = ''v22.0.0'', env_CONTAINER = Some ''true''\<rparr>"

definition example_memoryUsage :: "memory_snapshot before_after" where
  "example_memoryUsage =
     \<lparr>before = \<lparr>rss = Number (Fin 1000), heapTotal = StrUnknown, heapUsed = StrUnknown,
                 external = Number (Fin 5), totalMemory = Some ''16384MB''\<rparr>,
      after = \<lparr>rss = StrUnknown, heapTotal = StrUnknown, heapUsed = Number (Fin 350),
                external = StrUnknown, totalMemory = Some ''16384MB''\<rparr>\<rparr>"

definition example_cpuUsage :: cpuUsage_arg where
  "example_cpuUsage =
     \<lparr>before = \<lparr>cpu_snapshot.cpuCores = Number (Fin 8), user = StrUnknown, system = Number (Fin 3)\<rparr>,
      after = \<lparr>cpu_snapshot.cpuCores = Number (Fin 8), user = Number (Fin 80), system = StrUnknown\<rparr>,
      cpuUsage_arg.cpuCores = Number (Fin 8)\<rparr>"









section \<open>Facts about the model\<close>

subsection \<open>The two sums\<close>

text \<open>
  On finite numbers the two \<open>reduce\<close> calls compute a sum and a sum of squares.
\<close>

lemma foldl_js_add_Fin:
  "foldl (\<lambda>a b. js_add a (Fin b)) (Fin s) xs = Fin (s + sum_list xs)"
  by (induction xs arbitrary: s) (simp_all add: add.assoc)

lemma foldl_js_sq_Fin:
  "foldl (\<lambda>sum val. js_add sum (js_pow2 (js_sub (Fin val) (Fin m)))) (Fin s) xs
     = Fin (s + (\<Sum>x\<leftarrow>xs. (x - m)\<^sup>2))"
  by (induction xs arbitrary: s) (simp_all add: js_sub_def add.assoc)

subsection \<open>The three indices\<close>

text \<open>
  \<open>Math.floor\<close> of the three products is integer division, and for a non-empty array
  each index is in range.
\<close>

lemma floor_index_half: "floor_index (real n / 2) = n div 2"
  unfolding floor_index_def by (metis floor_divide_of_nat_eq nat_int of_nat_numeral)

lemma floor_index_95: "floor_index (real n * (95 / 100)) = (n * 95) div 100"
proof -
  have "real n * (95 / 100) = real (n * 95) / real 100" by simp
  then show ?thesis
    unfolding floor_index_def by (metis floor_divide_of_nat_eq nat_int)
qed

lemma floor_index_99: "floor_index (real n * (99 / 100)) = (n * 99) div 100"
proof -
  have "real n * (99 / 100) = real (n * 99) / real 100" by simp
  then show ?thesis
    unfolding floor_index_def by (metis floor_divide_of_nat_eq nat_int)
qed

lemma floor_index_95': "floor_index (real n * 19 / 20) = (n * 95) div 100"
proof -
  have "real n * 19 / 20 = real n * (95 / 100)" by simp
  then show ?thesis by (simp only: floor_index_95)
qed

lemma floor_index_99': "floor_index (real n * 99 / 100) = (n * 99) div 100"
proof -
  have "real n * 99 / 100 = real n * (99 / 100)" by simp
  then show ?thesis by (simp only: floor_index_99)
qed

lemma idx_half_lt: "0 < n \<Longrightarrow> n div 2 < (n::nat)"
  by simp

lemma idx_95_lt: "0 < n \<Longrightarrow> n * 95 div 100 < (n::nat)"
  by simp

lemma idx_99_lt: "0 < n \<Longrightarrow> n * 99 div 100 < (n::nat)"
  by simp

lemma idx_half_le_95: "n div 2 \<le> n * 95 div (100::nat)"
  by simp

lemma idx_95_le_99: "n * 95 div 100 \<le> n * 99 div (100::nat)"
  by (simp add: div_le_mono)

subsection \<open>The sorted copy\<close>

lemma sort_nth_mem: "i < length xs \<Longrightarrow> sort xs ! i \<in> set (xs::real list)"
  by (metis length_sort nth_mem set_sort)

lemma sort_nth_mono: "i \<le> j \<Longrightarrow> j < length xs \<Longrightarrow> sort xs ! i \<le> sort (xs::real list) ! j"
  by (simp add: sorted_nth_mono)

lemma mem_Min_Max: "x \<in> set xs \<Longrightarrow> Min (set xs) \<le> x \<and> x \<le> Max (set (xs::real list))"
  by simp

subsection \<open>Mean and variance\<close>






lemma sq_sum_nonneg: "0 \<le> (\<Sum>x\<leftarrow>xs. (x - (m::real))\<^sup>2)"
  by (induction xs) simp_all



subsection \<open>What formatMetrics returns\<close>

text \<open>
  The statistics of the report as functions of the contents of the array, first for any
  array, then for a non-empty one and for an empty one.
\<close>

lemma js_nth_sort_in_range: "i < length xs \<Longrightarrow> js_nth (sort xs) i = Number (Fin (sort xs ! i))"
  by (simp add: js_nth_def)

lemma formatMetrics_heap:
  "snd (formatMetrics proc now h rt ver expt a mu cu)
     = h\<lparr>cells := (cells h)(next_addr h := sort (cells h a)), next_addr := Suc (next_addr h)\<rparr>"
  by (simp add: formatMetrics_def array_copy_def array_sort_def Let_def)

lemma formatMetrics_statistics:
  assumes "a < next_addr h"
  shows "statistics (fst (formatMetrics proc now h rt ver expt a mu cu)) =
     \<lparr>mean = Number (js_div_length (Fin (sum_list (cells h a))) (length (cells h a))),
      median = js_nth (sort (cells h a)) (length (cells h a) div 2),
      stdDev = Number (js_sqrt (js_div_length
                 (foldl (\<lambda>sum val. js_add sum (js_pow2 (js_sub (Fin val)
                     (js_div_length (Fin (sum_list (cells h a))) (length (cells h a))))))
                   (Fin 0) (cells h a))
                 (length (cells h a)))),
      p95 = js_nth (sort (cells h a)) (length (cells h a) * 95 div 100),
      p99 = js_nth (sort (cells h a)) (length (cells h a) * 99 div 100)\<rparr>"
  using assms
  by (simp add: formatMetrics_def array_copy_def array_sort_def array_index_def Let_def
      foldl_js_add_Fin floor_index_half floor_index_95' floor_index_99')

lemma statistics_nonempty:
  assumes "a < next_addr h" and "cells h a \<noteq> []"
  shows "statistics (fst (formatMetrics proc now h rt ver expt a mu cu)) =
     \<lparr>mean = Number (Fin (sum_list (cells h a) / real (length (cells h a)))),
      median = Number (Fin (sort (cells h a) ! (length (cells h a) div 2))),
      stdDev = Number (Fin (sqrt ((\<Sum>x\<leftarrow>cells h a.
                  (x - sum_list (cells h a) / real (length (cells h a)))\<^sup>2)
                  / real (length (cells h a))))),
      p95 = Number (Fin (sort (cells h a) ! (length (cells h a) * 95 div 100))),
      p99 = Number (Fin (sort (cells h a) ! (length (cells h a) * 99 div 100)))\<rparr>"
proof -
  have n: "0 < length (cells h a)" using assms(2) by simp
  have neg: "\<not> (\<Sum>x\<leftarrow>cells h a. (x - sum_list (cells h a) / real (length (cells h a)))\<^sup>2)
                 / real (length (cells h a)) < 0"
    using n by (simp add: not_less sq_sum_nonneg)
  have i50: "js_nth (sort (cells h a)) (length (cells h a) div 2)
               = Number (Fin (sort (cells h a) ! (length (cells h a) div 2)))"
    by (rule js_nth_sort_in_range) (rule idx_half_lt [OF n])
  have i95: "js_nth (sort (cells h a)) (length (cells h a) * 95 div 100)
               = Number (Fin (sort (cells h a) ! (length (cells h a) * 95 div 100)))"
    by (rule js_nth_sort_in_range) (rule idx_95_lt [OF n])
  have i99: "js_nth (sort (cells h a)) (length (cells h a) * 99 div 100)
               = Number (Fin (sort (cells h a) ! (length (cells h a) * 99 div 100)))"
    by (rule js_nth_sort_in_range) (rule idx_99_lt [OF n])
  show ?thesis
    unfolding formatMetrics_statistics [OF assms(1)] i50 i95 i99
    using n neg by (simp add: foldl_js_sq_Fin)
qed


lemma formatMetrics_metrics_fields:
  "executionTimes (metrics (fst (formatMetrics proc now h rt ver expt a mu cu))) = a
   \<and> averageExecutionTime (metrics (fst (formatMetrics proc now h rt ver expt a mu cu)))
       = mean (statistics (fst (formatMetrics proc now h rt ver expt a mu cu)))"
  by (simp add: formatMetrics_def array_copy_def Let_def)

lemma formatMetrics_cells:
  "cells (snd (formatMetrics proc now h rt ver expt a mu cu))
     = (cells h)(next_addr h := sort (cells h a))"
  by (simp add: formatMetrics_heap)

lemma clamp_index_lt: "i < n \<Longrightarrow> clamp_index n i = i"
  by (simp add: clamp_index_def)


subsection \<open>Subtraction of values that are not numbers\<close>

lemma js_minus_NaN:
  "to_number x = NaN \<or> to_number y = NaN \<Longrightarrow> js_minus x y = Number NaN"
  by (cases "to_number x"; cases "to_number y") (auto simp: js_minus_def js_sub_def)

lemma js_minus_unknown:
  "x = StrUnknown \<or> y = StrUnknown \<Longrightarrow> js_minus x y = Number NaN"
  by (rule js_minus_NaN) auto

lemma formatMetrics_diffs:
  "diff (memoryUsage (metrics (fst (formatMetrics proc now h rt ver expt a mu cu))))
     = \<lparr>rss = js_minus (rss (after mu)) (rss (before mu)),
        heapTotal = js_minus (heapTotal (after mu)) (heapTotal (before mu)),
        heapUsed = js_minus (heapUsed (after mu)) (heapUsed (before mu)),
        external = js_minus (external (after mu)) (external (before mu))\<rparr>
   \<and> diffUser (cpuUsage (metrics (fst (formatMetrics proc now h rt ver expt a mu cu))))
       = js_minus (user (after cu)) (user (before cu))
   \<and> diffSystem (cpuUsage (metrics (fst (formatMetrics proc now h rt ver expt a mu cu))))
       = js_minus (system (after cu)) (system (before cu))"
  by (simp add: formatMetrics_def array_copy_def Let_def)

subsection \<open>Saving and the measuring loop\<close>







section \<open>Empty durations\<close>




section \<open>Unknown fields of the snapshots\<close>

text \<open>
  Claim C2, as stated: when a field of a snapshot is \<open>'unknown'\<close> before or after the run,
  the field of the diff is \<open>'unknown'\<close>.  The code subtracts whatever it finds, and \<open>-\<close>
  turns the string into \<open>NaN\<close>: in the example \<open>rss\<close> is unknown after the run and
  \<open>heapTotal\<close> on both sides, and neither diff is the string.
\<close>

theorem diff_unknown_example:
  "rss (after example_memoryUsage) = StrUnknown
   \<and> heapTotal (before example_memoryUsage) = StrUnknown
   \<and> heapTotal (after example_memoryUsage) = StrUnknown
   \<and> rss (diff (memoryUsage (metrics (fst (formatMetrics example_process
         ''2026-01-01T00:00:00.000Z'' example_heap ''node'' ''v22.0.0'' ''fibonacci'' 0
         example_memoryUsage example_cpuUsage))))) \<noteq> StrUnknown
   \<and> heapTotal (diff (memoryUsage (metrics (fst (formatMetrics example_process
         ''2026-01-01T00:00:00.000Z'' example_heap ''node'' ''v22.0.0'' ''fibonacci'' 0
         example_memoryUsage example_cpuUsage))))) = Number NaN"
  by (simp add: formatMetrics_diffs example_memoryUsage_def js_minus_def js_sub_def)

text \<open>
  Claim C2, amended: when a field of a snapshot is \<open>'unknown'\<close> before the run, after it
  or both, the field of the diff in the report is \<open>NaN\<close>: not the string \<open>'unknown'\<close>, and
  neither zero nor any other finite number.
\<close>

theorem diff_unknown_is_NaN:
  "(rss (before mu) = StrUnknown \<or> rss (after mu) = StrUnknown \<longrightarrow>
      rss (diff (memoryUsage (metrics (fst (formatMetrics proc now h rt ver expt a mu cu)))))
        = Number NaN)
   \<and> (heapTotal (before mu) = StrUnknown \<or> heapTotal (after mu) = StrUnknown \<longrightarrow>
      heapTotal (diff (memoryUsage (metrics (fst (formatMetrics proc now h rt ver expt a mu cu)))))
        = Number NaN)
   \<and> (heapUsed (before mu) = StrUnknown \<or> heapUsed (after mu) = StrUnknown \<longrightarrow>
      heapUsed (diff (memoryUsage (metrics (fst (formatMetrics proc now h rt ver expt a mu cu)))))
        = Number NaN)
   \<and> (external (before mu) = StrUnknown \<or> external (after mu) = StrUnknown \<longrightarrow>
      external (diff (memoryUsage (metrics (fst (formatMetrics proc now h rt ver expt a mu cu)))))
        = Number NaN)
   \<and> (user (before cu) = StrUnknown \<or> user (after cu) = StrUnknown \<longrightarrow>
      diffUser (cpuUsage (metrics (fst (formatMetrics proc now h rt ver expt a mu cu))))
        = Number NaN)
   \<and> (system (before cu) = StrUnknown \<or> system (after cu) = StrUnknown \<longrightarrow>
      diffSystem (cpuUsage (metrics (fst (formatMetrics proc now h rt ver expt a mu cu))))
        = Number NaN)"
  using formatMetrics_diffs [of proc now h rt ver expt a mu cu]
  by (auto simp: js_minus_unknown)

theorem diff_unknown_is_NaN_witness:
  "rss (after example_memoryUsage) = StrUnknown
   \<and> heapTotal (before example_memoryUsage) = StrUnknown
   \<and> heapUsed (before example_memoryUsage) = StrUnknown
   \<and> external (after example_memoryUsage) = StrUnknown
   \<and> user (before example_cpuUsage) = StrUnknown
   \<and> system (after example_cpuUsage) = StrUnknown
   \<and> diff (memoryUsage (metrics (fst (formatMetrics example_process
         ''2026-01-01T00:00:00.000Z'' example_heap ''node'' ''v22.0.0'' ''fibonacci'' 0
         example_memoryUsage example_cpuUsage))))
       = \<lparr>rss = Number NaN, heapTotal = Number NaN, heapUsed = Number NaN, external = Number NaN\<rparr>
   \<and> diffUser (cpuUsage (metrics (fst (formatMetrics example_process
         ''2026-01-01T00:00:00.000Z'' example_heap ''node'' ''v22.0.0'' ''fibonacci'' 0
         example_memoryUsage example_cpuUsage)))) = Number NaN
   \<and> diffSystem (cpuUsage (metrics (fst (formatMetrics example_process
         ''2026-01-01T00:00:00.000Z'' example_heap ''node'' ''v22.0.0'' ''fibonacci'' 0
         example_memoryUsage example_cpuUsage)))) = Number NaN"
proof -
  have u: "rss (after example_memoryUsage) = StrUnknown"
      "heapTotal (before example_memoryUsage) = StrUnknown"
      "heapUsed (before example_memoryUsage) = StrUnknown"
      "external (after example_memoryUsage) = StrUnknown"
      "user (before example_cpuUsage) = StrUnknown"
      "system (after example_cpuUsage) = StrUnknown"
    by (simp_all add: example_memoryUsage_def example_cpuUsage_def)
  note t = diff_unknown_is_NaN [of example_memoryUsage example_process
         "''2026-01-01T00:00:00.000Z''" example_heap "''node''" "''v22.0.0''" "''fibonacci''" 0
         example_cpuUsage]
  have d: "diff (memoryUsage (metrics (fst (formatMetrics example_process
         ''2026-01-01T00:00:00.000Z'' example_heap ''node'' ''v22.0.0'' ''fibonacci'' 0
         example_memoryUsage example_cpuUsage))))
       = \<lparr>rss = Number NaN, heapTotal = Number NaN, heapUsed = Number NaN, external = Number NaN\<rparr>"
    using t u by (intro memory_fields.equality) simp_all
  show ?thesis using t u d by simp
qed

section \<open>The median\<close>

text \<open>
  Claim C3.  For every non-empty sequence of durations, of length \<open>N\<close>, \<open>statistics.median\<close>
  is the element at index \<open>floor(N / 2)\<close> of the durations sorted in ascending order: the
  upper median when \<open>N\<close> is even.  For a single duration it is that duration, and for two
  it is the larger one.
\<close>

theorem median_upper:
  assumes "a < next_addr h" and "cells h a \<noteq> []"
  shows "median (statistics (fst (formatMetrics proc now h rt ver expt a mu cu)))
           = Number (Fin (sort (cells h a) ! nat \<lfloor>real (length (cells h a)) / 2\<rfloor>))
         \<and> (\<forall>x. cells h a = [x] \<longrightarrow>
               median (statistics (fst (formatMetrics proc now h rt ver expt a mu cu))) = Number (Fin x))
         \<and> (\<forall>x y. cells h a = [x, y] \<longrightarrow>
               median (statistics (fst (formatMetrics proc now h rt ver expt a mu cu))) = Number (Fin (max x y)))"
proof -
  have m: "median (statistics (fst (formatMetrics proc now h rt ver expt a mu cu)))
           = Number (Fin (sort (cells h a) ! (length (cells h a) div 2)))"
    by (simp add: statistics_nonempty [OF assms])
  have i: "nat \<lfloor>real (length (cells h a)) / 2\<rfloor> = length (cells h a) div 2"
    using floor_index_half [of "length (cells h a)"] by (simp add: floor_index_def)
  have one: "\<And>x. cells h a = [x] \<Longrightarrow> sort (cells h a) ! (length (cells h a) div 2) = x"
    by simp
  have two: "\<And>x y. cells h a = [x, y] \<Longrightarrow> sort (cells h a) ! (length (cells h a) div 2) = max x y"
    by (simp add: max_def)
  show ?thesis using m i one two by simp
qed

theorem median_upper_witness:
  "0 < next_addr example_heap \<and> cells example_heap 0 \<noteq> []
   \<and> cells example_heap 1 = [10] \<and> cells example_heap 4 = [200, 100]
   \<and> median (statistics (fst (formatMetrics example_process ''2026-01-01T00:00:00.000Z'' example_heap
         ''node'' ''v22.0.0'' ''fibonacci'' 0 example_memoryUsage example_cpuUsage))) = Number (Fin 300)
   \<and> median (statistics (fst (formatMetrics example_process ''2026-01-01T00:00:00.000Z'' example_heap
         ''node'' ''v22.0.0'' ''fibonacci'' 1 example_memoryUsage example_cpuUsage))) = Number (Fin 10)
   \<and> median (statistics (fst (formatMetrics example_process ''2026-01-01T00:00:00.000Z'' example_heap
         ''node'' ''v22.0.0'' ''fibonacci'' 4 example_memoryUsage example_cpuUsage))) = Number (Fin 200)"
  using median_upper [of 0 example_heap example_process "''2026-01-01T00:00:00.000Z''"
          "''node''" "''v22.0.0''" "''fibonacci''" example_memoryUsage example_cpuUsage]
        median_upper [of 1 example_heap example_process "''2026-01-01T00:00:00.000Z''"
          "''node''" "''v22.0.0''" "''fibonacci''" example_memoryUsage example_cpuUsage]
        median_upper [of 4 example_heap example_process "''2026-01-01T00:00:00.000Z''"
          "''node''" "''v22.0.0''" "''fibonacci''" example_memoryUsage example_cpuUsage]
  by (simp add: example_heap_def)

section \<open>The percentiles\<close>

text \<open>
  Claim C4.  For every non-empty sequence of durations, of length \<open>N\<close>, \<open>statistics.p95\<close>
  and \<open>statistics.p99\<close> are the elements at the indices \<open>floor(N * 0.95)\<close> and
  \<open>floor(N * 0.99)\<close> of the durations sorted in ascending order, the index clamped to
  \<open>N - 1\<close> should it equal \<open>N\<close>.  The code does not clamp; the computed index is below
  \<open>N\<close> for every \<open>N \<ge> 1\<close>, so clamping changes nothing.  Both values are elements of the
  durations and lie between their minimum and their maximum.
\<close>

theorem percentiles_clamped:
  assumes "a < next_addr h" and "cells h a \<noteq> []"
  shows "nat \<lfloor>real (length (cells h a)) * (95 / 100)\<rfloor> < length (cells h a)
       \<and> nat \<lfloor>real (length (cells h a)) * (99 / 100)\<rfloor> < length (cells h a)
       \<and> p95 (statistics (fst (formatMetrics proc now h rt ver expt a mu cu)))
           = Number (Fin (sort (cells h a) !
               clamp_index (length (cells h a)) (nat \<lfloor>real (length (cells h a)) * (95 / 100)\<rfloor>)))
       \<and> p99 (statistics (fst (formatMetrics proc now h rt ver expt a mu cu)))
           = Number (Fin (sort (cells h a) !
               clamp_index (length (cells h a)) (nat \<lfloor>real (length (cells h a)) * (99 / 100)\<rfloor>)))
       \<and> (\<exists>p q. p95 (statistics (fst (formatMetrics proc now h rt ver expt a mu cu))) = Number (Fin p)
               \<and> p99 (statistics (fst (formatMetrics proc now h rt ver expt a mu cu))) = Number (Fin q)
               \<and> p \<in> set (cells h a) \<and> q \<in> set (cells h a)
               \<and> Min (set (cells h a)) \<le> p \<and> p \<le> Max (set (cells h a))
               \<and> Min (set (cells h a)) \<le> q \<and> q \<le> Max (set (cells h a)))"
proof -
  let ?xs = "cells h a"
  let ?n = "length ?xs"
  have n: "0 < ?n" using assms(2) by simp
  have i95: "nat \<lfloor>real ?n * (95 / 100)\<rfloor> = ?n * 95 div 100"
    using floor_index_95 [of ?n] by (simp only: floor_index_def)
  have i99: "nat \<lfloor>real ?n * (99 / 100)\<rfloor> = ?n * 99 div 100"
    using floor_index_99 [of ?n] by (simp only: floor_index_def)
  have lt95: "?n * 95 div 100 < ?n" by (rule idx_95_lt [OF n])
  have lt99: "?n * 99 div 100 < ?n" by (rule idx_99_lt [OF n])
  have c95: "clamp_index ?n (?n * 95 div 100) = ?n * 95 div 100"
    by (rule clamp_index_lt [OF lt95])
  have c99: "clamp_index ?n (?n * 99 div 100) = ?n * 99 div 100"
    by (rule clamp_index_lt [OF lt99])
  have p95: "p95 (statistics (fst (formatMetrics proc now h rt ver expt a mu cu)))
               = Number (Fin (sort ?xs ! (?n * 95 div 100)))"
    unfolding statistics_nonempty [OF assms] by simp
  have p99: "p99 (statistics (fst (formatMetrics proc now h rt ver expt a mu cu)))
               = Number (Fin (sort ?xs ! (?n * 99 div 100)))"
    unfolding statistics_nonempty [OF assms] by simp
  have m95: "sort ?xs ! (?n * 95 div 100) \<in> set ?xs" by (rule sort_nth_mem [OF lt95])
  have m99: "sort ?xs ! (?n * 99 div 100) \<in> set ?xs" by (rule sort_nth_mem [OF lt99])
  show ?thesis
    unfolding i95 i99 c95 c99 p95 p99
    using lt95 lt99 m95 m99 mem_Min_Max [OF m95] mem_Min_Max [OF m99] by blast
qed

theorem percentiles_clamped_witness:
  "0 < next_addr example_heap \<and> cells example_heap 0 \<noteq> []
   \<and> p95 (statistics (fst (formatMetrics example_process ''2026-01-01T00:00:00.000Z'' example_heap
         ''node'' ''v22.0.0'' ''fibonacci'' 0 example_memoryUsage example_cpuUsage))) = Number (Fin 500)
   \<and> p99 (statistics (fst (formatMetrics example_process ''2026-01-01T00:00:00.000Z'' example_heap
         ''node'' ''v22.0.0'' ''fibonacci'' 0 example_memoryUsage example_cpuUsage))) = Number (Fin 500)"
  using percentiles_clamped [of 0 example_heap example_process "''2026-01-01T00:00:00.000Z''"
          "''node''" "''v22.0.0''" "''fibonacci''" example_memoryUsage example_cpuUsage]
  by (simp add: example_heap_def clamp_index_def)

section \<open>The mean\<close>



section \<open>The standard deviation\<close>



section \<open>The durations array is left alone\<close>

text \<open>
  Claim C7.  The report's \<open>metrics.executionTimes\<close> is the input sequence of durations in
  its original order, and building the report does not change the input: the array is
  sorted only in a copy.  Here: the report holds the reference it was given, the array
  behind it, as every array that was there before, has the contents it had, and the
  sorted sequence lives at a fresh address.
\<close>

theorem executionTimes_preserved:
  assumes "a < next_addr h"
  shows "executionTimes (metrics (fst (formatMetrics proc now h rt ver expt a mu cu))) = a
       \<and> cells (snd (formatMetrics proc now h rt ver expt a mu cu))
            (executionTimes (metrics (fst (formatMetrics proc now h rt ver expt a mu cu))))
           = cells h a
       \<and> (\<forall>b. b < next_addr h \<longrightarrow>
             cells (snd (formatMetrics proc now h rt ver expt a mu cu)) b = cells h b)
       \<and> cells (snd (formatMetrics proc now h rt ver expt a mu cu)) (next_addr h)
           = sort (cells h a)"
proof -
  have e: "executionTimes (metrics (fst (formatMetrics proc now h rt ver expt a mu cu))) = a"
    using formatMetrics_metrics_fields [of proc now h rt ver expt a mu cu] by (rule conjunct1)
  have c: "cells (snd (formatMetrics proc now h rt ver expt a mu cu))
             = (cells h)(next_addr h := sort (cells h a))"
    by (rule formatMetrics_cells)
  show ?thesis unfolding e c using assms by simp
qed

theorem executionTimes_preserved_witness:
  "0 < next_addr example_heap
   \<and> executionTimes (metrics (fst (formatMetrics example_process ''2026-01-01T00:00:00.000Z''
        example_heap ''node'' ''v22.0.0'' ''fibonacci'' 0 example_memoryUsage example_cpuUsage))) = 0
   \<and> cells (snd (formatMetrics example_process ''2026-01-01T00:00:00.000Z''
        example_heap ''node'' ''v22.0.0'' ''fibonacci'' 0 example_memoryUsage example_cpuUsage)) 0
       = [300, 100, 500, 200, 400]
   \<and> cells (snd (formatMetrics example_process ''2026-01-01T00:00:00.000Z''
        example_heap ''node'' ''v22.0.0'' ''fibonacci'' 0 example_memoryUsage example_cpuUsage)) 5
       = [100, 200, 300, 400, 500]"
proof -
  have live: "0 < next_addr example_heap" by (simp add: example_heap_def)
  have xs: "cells example_heap 0 = [300, 100, 500, 200, 400]" by (simp add: example_heap_def)
  have nx: "next_addr example_heap = 5" by (simp add: example_heap_def)
  note t = executionTimes_preserved [OF live, of example_process "''2026-01-01T00:00:00.000Z''"
          "''node''" "''v22.0.0''" "''fibonacci''" example_memoryUsage example_cpuUsage]
  from t have e: "executionTimes (metrics (fst (formatMetrics example_process
        ''2026-01-01T00:00:00.000Z'' example_heap ''node'' ''v22.0.0'' ''fibonacci'' 0
        example_memoryUsage example_cpuUsage))) = 0"
    by (rule conjunct1)
  from t have "\<forall>b. b < next_addr example_heap \<longrightarrow>
      cells (snd (formatMetrics example_process ''2026-01-01T00:00:00.000Z''
        example_heap ''node'' ''v22.0.0'' ''fibonacci'' 0 example_memoryUsage example_cpuUsage)) b
       = cells example_heap b"
    by (elim conjE)
  then have c0: "cells (snd (formatMetrics example_process ''2026-01-01T00:00:00.000Z''
        example_heap ''node'' ''v22.0.0'' ''fibonacci'' 0 example_memoryUsage example_cpuUsage)) 0
       = [300, 100, 500, 200, 400]"
    using live xs by simp
  from t have "cells (snd (formatMetrics example_process ''2026-01-01T00:00:00.000Z''
        example_heap ''node'' ''v22.0.0'' ''fibonacci'' 0 example_memoryUsage example_cpuUsage))
        (next_addr example_heap) = sort (cells example_heap 0)"
    by (elim conjE)
  then have c5: "cells (snd (formatMetrics example_process ''2026-01-01T00:00:00.000Z''
        example_heap ''node'' ''v22.0.0'' ''fibonacci'' 0 example_memoryUsage example_cpuUsage)) 5
       = [100, 200, 300, 400, 500]"
    by (simp add: xs nx)
  show ?thesis using live e c0 c5 by simp
qed

section \<open>Determinism\<close>

text \<open>
  Claim C8.  Two calls with the same inputs give reports with the same \<open>metrics\<close> and the
  same \<open>statistics\<close>; they differ in \<open>timestamp\<close> only.  This holds when the second
  call runs, at another time, on the heap the first one leaves, and when both run on the
  same heap.
\<close>

theorem formatMetrics_deterministic:
  assumes "a < next_addr h"
  shows "metrics (fst (formatMetrics proc now2 (snd (formatMetrics proc now1 h rt ver expt a mu cu))
                    rt ver expt a mu cu))
           = metrics (fst (formatMetrics proc now1 h rt ver expt a mu cu))
       \<and> statistics (fst (formatMetrics proc now2 (snd (formatMetrics proc now1 h rt ver expt a mu cu))
                    rt ver expt a mu cu))
           = statistics (fst (formatMetrics proc now1 h rt ver expt a mu cu))
       \<and> fst (formatMetrics proc now2 (snd (formatMetrics proc now1 h rt ver expt a mu cu))
                    rt ver expt a mu cu)
           = (fst (formatMetrics proc now1 h rt ver expt a mu cu))\<lparr>timestamp := now2\<rparr>
       \<and> fst (formatMetrics proc now2 h rt ver expt a mu cu)
           = (fst (formatMetrics proc now1 h rt ver expt a mu cu))\<lparr>timestamp := now2\<rparr>
       \<and> timestamp (fst (formatMetrics proc now1 h rt ver expt a mu cu)) = now1
       \<and> timestamp (fst (formatMetrics proc now2 (snd (formatMetrics proc now1 h rt ver expt a mu cu))
                    rt ver expt a mu cu)) = now2"
proof -
  let ?h1 = "snd (formatMetrics proc now1 h rt ver expt a mu cu)"
  have c: "cells ?h1 a = cells h a"
    using assms by (simp add: formatMetrics_cells)
  have same: "fst (formatMetrics proc now2 ?h1 rt ver expt a mu cu)
                = (fst (formatMetrics proc now1 h rt ver expt a mu cu))\<lparr>timestamp := now2\<rparr>"
    using assms c
    by (simp add: formatMetrics_def array_copy_def array_sort_def array_index_def Let_def)
  have t1: "timestamp (fst (formatMetrics proc now1 h rt ver expt a mu cu)) = now1"
    by (simp add: formatMetrics_def array_copy_def Let_def)
  have indep: "fst (formatMetrics proc now2 h rt ver expt a mu cu)
                = (fst (formatMetrics proc now1 h rt ver expt a mu cu))\<lparr>timestamp := now2\<rparr>"
    by (simp add: formatMetrics_def array_copy_def Let_def)
  show ?thesis unfolding same indep using t1 by simp
qed

theorem formatMetrics_deterministic_witness:
  "0 < next_addr example_heap
   \<and> metrics (fst (formatMetrics example_process ''2026-01-02T00:00:00.000Z''
        (snd (formatMetrics example_process ''2026-01-01T00:00:00.000Z'' example_heap
                ''node'' ''v22.0.0'' ''fibonacci'' 0 example_memoryUsage example_cpuUsage))
        ''node'' ''v22.0.0'' ''fibonacci'' 0 example_memoryUsage example_cpuUsage))
     = metrics (fst (formatMetrics example_process ''2026-01-01T00:00:00.000Z'' example_heap
                ''node'' ''v22.0.0'' ''fibonacci'' 0 example_memoryUsage example_cpuUsage))
   \<and> statistics (fst (formatMetrics example_process ''2026-01-02T00:00:00.000Z''
        (snd (formatMetrics example_process ''2026-01-01T00:00:00.000Z'' example_heap
                ''node'' ''v22.0.0'' ''fibonacci'' 0 example_memoryUsage example_cpuUsage))
        ''node'' ''v22.0.0'' ''fibonacci'' 0 example_memoryUsage example_cpuUsage))
     = statistics (fst (formatMetrics example_process ''2026-01-01T00:00:00.000Z'' example_heap
                ''node'' ''v22.0.0'' ''fibonacci'' 0 example_memoryUsage example_cpuUsage))"
proof -
  have live: "0 < next_addr example_heap" by (simp add: example_heap_def)
  note t = formatMetrics_deterministic [OF live, of example_process "''2026-01-02T00:00:00.000Z''"
          "''2026-01-01T00:00:00.000Z''" "''node''" "''v22.0.0''" "''fibonacci''"
          example_memoryUsage example_cpuUsage]
  show ?thesis using live t by blast
qed

section \<open>A report that cannot be saved\<close>



section \<open>The order statistics together\<close>

text \<open>
  Claim C10.  For every non-empty sequence of durations the order statistics agree with
  each other: \<open>median \<le> p95 \<le> p99\<close>, and each of the three is an element of the
  durations.
\<close>

theorem order_statistics_consistent:
  assumes "a < next_addr h" and "cells h a \<noteq> []"
  shows "\<exists>m p q.
           median (statistics (fst (formatMetrics proc now h rt ver expt a mu cu))) = Number (Fin m)
         \<and> p95 (statistics (fst (formatMetrics proc now h rt ver expt a mu cu))) = Number (Fin p)
         \<and> p99 (statistics (fst (formatMetrics proc now h rt ver expt a mu cu))) = Number (Fin q)
         \<and> m \<le> p \<and> p \<le> q
         \<and> m \<in> set (cells h a) \<and> p \<in> set (cells h a) \<and> q \<in> set (cells h a)"
proof -
  let ?xs = "cells h a"
  let ?n = "length ?xs"
  have n: "0 < ?n" using assms(2) by simp
  have lt50: "?n div 2 < ?n" by (rule idx_half_lt [OF n])
  have lt95: "?n * 95 div 100 < ?n" by (rule idx_95_lt [OF n])
  have lt99: "?n * 99 div 100 < ?n" by (rule idx_99_lt [OF n])
  have le1: "sort ?xs ! (?n div 2) \<le> sort ?xs ! (?n * 95 div 100)"
    by (rule sort_nth_mono [OF idx_half_le_95 lt95])
  have le2: "sort ?xs ! (?n * 95 div 100) \<le> sort ?xs ! (?n * 99 div 100)"
    by (rule sort_nth_mono [OF idx_95_le_99 lt99])
  have st: "median (statistics (fst (formatMetrics proc now h rt ver expt a mu cu)))
              = Number (Fin (sort ?xs ! (?n div 2)))
          \<and> p95 (statistics (fst (formatMetrics proc now h rt ver expt a mu cu)))
              = Number (Fin (sort ?xs ! (?n * 95 div 100)))
          \<and> p99 (statistics (fst (formatMetrics proc now h rt ver expt a mu cu)))
              = Number (Fin (sort ?xs ! (?n * 99 div 100)))"
    unfolding statistics_nonempty [OF assms] by simp
  show ?thesis
    using st le1 le2 sort_nth_mem [OF lt50] sort_nth_mem [OF lt95] sort_nth_mem [OF lt99]
    by blast
qed

theorem order_statistics_consistent_witness:
  "4 < next_addr example_heap \<and> cells example_heap 4 \<noteq> []
   \<and> (\<exists>m p q.
         median (statistics (fst (formatMetrics example_process ''2026-01-01T00:00:00.000Z''
            example_heap ''node'' ''v22.0.0'' ''fibonacci'' 4 example_memoryUsage example_cpuUsage)))
           = Number (Fin m)
       \<and> p95 (statistics (fst (formatMetrics example_process ''2026-01-01T00:00:00.000Z''
            example_heap ''node'' ''v22.0.0'' ''fibonacci'' 4 example_memoryUsage example_cpuUsage)))
           = Number (Fin p)
       \<and> p99 (statistics (fst (formatMetrics example_process ''2026-01-01T00:00:00.000Z''
            example_heap ''node'' ''v22.0.0'' ''fibonacci'' 4 example_memoryUsage example_cpuUsage)))
           = Number (Fin q)
       \<and> m \<le> p \<and> p \<le> q \<and> m \<in> {200, 100} \<and> p \<in> {200, 100} \<and> q \<in> {200, 100})"
proof -
  have live: "4 < next_addr example_heap" by (simp add: example_heap_def)
  have xs: "cells example_heap 4 = [200, 100]" by (simp add: example_heap_def)
  have ne: "cells example_heap 4 \<noteq> []" by (simp add: xs)
  note t = order_statistics_consistent [OF live ne, of example_process
          "''2026-01-01T00:00:00.000Z''" "''node''" "''v22.0.0''" "''fibonacci''"
          example_memoryUsage example_cpuUsage]
  have s: "set (cells example_heap 4) = {200, 100}" by (simp add: xs)
  show ?thesis using live ne t unfolding s by simp
qed

end
